theory Spec2Isabelle
  imports Complex_Main "HOL-Library.Product_Lexorder"
begin

section \<open>Continuous glucose visualisation (cgv.py)\<close>

subsection \<open>Exceptions, dates and timestamps\<close>

text \<open>
  The Python exceptions that the modelled code can raise. A call that raises returns
  \<open>Inl e\<close>, one that returns normally returns \<open>Inr v\<close>.
\<close>

datatype error = ValueError | AttributeError | IndexError | TypeError

text \<open>
  A \<open>datetime.date\<close> is represented by its proleptic Gregorian ordinal
  (\<open>date.toordinal()\<close>: 0001-01-01 is day 1, a Monday), and \<open>timedelta(days=n)\<close> by
  the integer \<open>n\<close>. \<open>date.weekday()\<close> is 0 on Monday and 6 on Sunday. The dates of
  the series are dates of the nanosecond timestamps of the tabular library, which lie
  in the years 1677 to 2262; the \<open>OverflowError\<close> that date arithmetic raises outside
  the years 1 to 9999 is not modelled. A timestamp of the series is a calendar day with the minute of that day
  (the input format is \<open>%m-%d-%Y %H:%M\<close>), ordered lexicographically.
\<close>

type_synonym date = int

type_synonym timestamp = "date \<times> nat"

definition weekday :: "date \<Rightarrow> int" where
  "weekday d = (d + 6) mod 7"

definition date_of :: "timestamp \<Rightarrow> date" where
  "date_of ts = fst ts"

subsection \<open>Week\<close>

record Week =
  first_day :: date
  week_number :: int

definition last_day :: "Week \<Rightarrow> date" where
  "last_day w = first_day w + 6"

definition inside_week :: "Week \<Rightarrow> date \<Rightarrow> bool" where
  "inside_week w day = (if first_day w \<le> day \<and> day \<le> last_day w then True else False)"

subsection \<open>Segmentation of the time period\<close>

text \<open>
  \<open>Series.min()\<close> and \<open>Series.max()\<close> of the date column. On an empty series both are
  \<open>NaT\<close>, here \<open>None\<close>.
\<close>

definition series_min :: "timestamp list \<Rightarrow> timestamp option" where
  "series_min dates = (case dates of [] \<Rightarrow> None | t # ts \<Rightarrow> Some (fold min ts t))"

definition series_max :: "timestamp list \<Rightarrow> timestamp option" where
  "series_max dates = (case dates of [] \<Rightarrow> None | t # ts \<Rightarrow> Some (fold max ts t))"

text \<open>
  The \<open>while\<close> loop of \<open>segmenting_time_period\<close> (lines 142 to 145). The boundary is
  advanced first, and the week is appended with the advanced boundary. With a segment
  length that is not positive the loop never ends, which is the value \<open>None\<close>.
\<close>

partial_function (option) segmenting_loop ::
  "int \<Rightarrow> date \<Rightarrow> date \<Rightarrow> int \<Rightarrow> Week list \<Rightarrow> Week list option" where
  "segmenting_loop days_per_segment max_day first_week_day week weeks =
     (if first_week_day < max_day then
        segmenting_loop days_per_segment max_day (first_week_day + days_per_segment) (week + 1)
          (weeks @ [\<lparr>first_day = first_week_day + days_per_segment, week_number = week + 1\<rparr>])
      else Some weeks)"

declare segmenting_loop.simps [code]

definition align_first_day :: "date \<Rightarrow> date" where
  "align_first_day first = (if weekday first > 0 then first - weekday first else first)"

text \<open>
  \<open>segmenting_time_period\<close>. For \<open>NaT\<close> the method \<open>date()\<close> gives \<open>NaT\<close> again,
  \<open>weekday()\<close> gives NaN, and every comparison with \<open>NaT\<close> or NaN is false: on an
  empty series neither the alignment nor the loop body runs, and the empty list is
  returned.
\<close>

definition segmenting_time_period :: "timestamp list \<Rightarrow> int \<Rightarrow> Week list option" where
  "segmenting_time_period dates days_per_segment =
     (case series_min dates of
        None \<Rightarrow> Some []
      | Some lo \<Rightarrow>
          (case series_max dates of
             None \<Rightarrow> Some []
           | Some hi \<Rightarrow>
               segmenting_loop days_per_segment (date_of hi)
                 (align_first_day (date_of lo)) 0 []))"

subsection \<open>Formatting helpers\<close>

text \<open>
  \<open>str(n)\<close> for an integer, as an f-string inserts it. The formatting of dates belongs
  to the standard library: \<open>date.strftime\<close> with the format \<open>%d.%m.%Y\<close> and the
  \<open>repr\<close> of a date are parameters \<open>strftime\<close> and \<open>repr_date\<close> of the functions
  that use them.
\<close>

definition digit_char :: "nat \<Rightarrow> char" where
  "digit_char n = char_of (48 + n)"

function str_nat :: "nat \<Rightarrow> string" where
  "str_nat n = (if n < 10 then [digit_char n] else str_nat (n div 10) @ [digit_char (n mod 10)])"
  by pat_completeness auto
termination
  by (relation "measure id") auto

declare str_nat.simps [simp del]

definition str_int :: "int \<Rightarrow> string" where
  "str_int i = (if i < 0 then CHR ''-'' # str_nat (nat (- i)) else str_nat (nat i))"

definition time_span :: "(date \<Rightarrow> string) \<Rightarrow> Week \<Rightarrow> string" where
  "time_span strftime w = strftime (first_day w) @ '' - '' @ strftime (last_day w)"

text \<open>The \<open>repr\<close> that the dataclass generates for a \<open>Week\<close>.\<close>

definition repr_Week :: "(date \<Rightarrow> string) \<Rightarrow> Week \<Rightarrow> string" where
  "repr_Week repr_date w =
     ''Week(first_day='' @ repr_date (first_day w) @ '', week_number='' @
       str_int (week_number w) @ '')''"

subsection \<open>The cleaner: construction of CGV\<close>

text \<open>
  The table that \<open>pd.read_csv\<close> returns: the header and the rows. A row maps a column
  name to its cell, \<open>None\<close> being a missing cell (NaN). The cells of the two columns
  read here are strings. Parsing a timestamp (\<open>pd.to_datetime\<close> with the format
  \<open>%m-%d-%Y %H:%M\<close>) and parsing a number (\<open>pd.to_numeric\<close>) belong to the
  tabular library and are the parameters \<open>to_datetime\<close> and \<open>to_numeric\<close>, applied
  cell by cell; the first cell that fails raises.
\<close>

record table =
  columns :: "string list"
  rows :: "(string \<rightharpoonup> string) list"

text \<open>
  The state outside the object: the file system, a map from a path to what is stored
  there, and the lines printed. Paths are compared as they are written.
\<close>

datatype fs_entry = Directory | Figure | Text string

record world =
  files :: "string \<rightharpoonup> fs_entry"
  stdout :: "string list"

record 'n CGV =
  data :: "(timestamp \<times> 'n) list"
  date_column :: string
  glucose_column :: string
  weeks :: "Week list"

fun map_result :: "('a \<Rightarrow> error + 'b) \<Rightarrow> 'a list \<Rightarrow> error + 'b list" where
  "map_result f [] = Inr []"
| "map_result f (x # xs) =
     (case f x of
        Inl e \<Rightarrow> Inl e
      | Inr y \<Rightarrow> (case map_result f xs of Inl e \<Rightarrow> Inl e | Inr ys \<Rightarrow> Inr (y # ys)))"

text \<open>
  Lines 93 to 104: the attribute is set when the column is in the header; otherwise a
  \<open>ValueError\<close> object is built and dropped (there is no \<open>raise\<close>), and the attribute
  stays unset. Reading an unset attribute raises \<open>AttributeError\<close>.
\<close>

definition set_column_attr :: "table \<Rightarrow> string \<Rightarrow> string option" where
  "set_column_attr tbl column = (if column \<in> set (columns tbl) then Some column else None)"

definition get_attr :: "'a option \<Rightarrow> error + 'a" where
  "get_attr a = (case a of None \<Rightarrow> Inl AttributeError | Some v \<Rightarrow> Inr v)"

text \<open>\<open>Series.str.replace(pat=",", repl=".")\<close> on one cell.\<close>

definition str_replace :: "char \<Rightarrow> char \<Rightarrow> string \<Rightarrow> string" where
  "str_replace pat repl s = map (\<lambda>c. if c = pat then repl else c) s"

definition convert_glucose_data :: "(string \<Rightarrow> error + 'n) \<Rightarrow> string list \<Rightarrow> error + 'n list" where
  "convert_glucose_data to_numeric glucose_data =
     map_result to_numeric (map (str_replace CHR '','' CHR ''.'') glucose_data)"

definition add_figure_folder :: "world \<Rightarrow> world" where
  "add_figure_folder w =
     (if files w ''./figures/'' = None then w\<lparr>files := (files w)(''./figures/'' \<mapsto> Directory)\<rparr>
      else w)"

text \<open>
  \<open>CGV.__init__\<close> from line 93 on. The rows with a missing date or glucose cell are
  dropped, only the two columns are kept in the model, the dates are parsed, the rows
  are sorted by date (rows with equal dates keep their order in the model), the weeks
  are generated with the default segment length 7, and the glucose cells are converted.
\<close>

definition CGV_init ::
  "(string \<Rightarrow> error + timestamp) \<Rightarrow> (string \<Rightarrow> error + 'n) \<Rightarrow> table \<Rightarrow> string \<Rightarrow> string \<Rightarrow>
     world \<Rightarrow> (error + 'n CGV \<times> world) option" where
  "CGV_init to_datetime to_numeric tbl date_col glucose_col w =
     (let date_attr = set_column_attr tbl date_col;
          glucose_attr = set_column_attr tbl glucose_col
      in case get_attr date_attr of
           Inl e \<Rightarrow> Some (Inl e)
         | Inr dc \<Rightarrow>
         (case get_attr glucose_attr of
           Inl e \<Rightarrow> Some (Inl e)
         | Inr gc \<Rightarrow>
         (let kept = List.map_filter
                (\<lambda>r. case (r dc, r gc) of (Some d, Some g) \<Rightarrow> Some (d, g) | _ \<Rightarrow> None)
                (rows tbl)
          in case map_result to_datetime (map fst kept) of
               Inl e \<Rightarrow> Some (Inl e)
             | Inr stamps \<Rightarrow>
             (let sorted_rows = sort_key fst (zip stamps (map snd kept))
              in case segmenting_time_period (map fst sorted_rows) 7 of
                   None \<Rightarrow> None
                 | Some ws \<Rightarrow>
                 (case convert_glucose_data to_numeric (map snd sorted_rows) of
                    Inl e \<Rightarrow> Some (Inl e)
                  | Inr values \<Rightarrow>
                      Some (Inr (\<lparr>data = zip (map fst sorted_rows) values,
                                  date_column = dc, glucose_column = gc, weeks = ws\<rparr>,
                                 add_figure_folder w)))))))"

subsection \<open>Rendering one week\<close>

text \<open>
  \<open>plot_week\<close> takes a week number or a \<open>Week\<close>. A number is looked up with
  \<open>list(filter(...))[0]\<close>, which raises \<open>IndexError\<close> on an empty list. The chart
  itself is drawn by the plotting library; of \<open>savefig\<close> the model keeps that a figure
  is stored at the path afterwards.
\<close>

definition lookup_week :: "Week list \<Rightarrow> int \<Rightarrow> error + Week" where
  "lookup_week ws n =
     (case filter (\<lambda>x. week_number x = n) ws of [] \<Rightarrow> Inl IndexError | w # _ \<Rightarrow> Inr w)"

definition week_data :: "'n CGV \<Rightarrow> Week \<Rightarrow> (timestamp \<times> 'n) list" where
  "week_data self week =
     filter (\<lambda>row. first_day week \<le> date_of (fst row) \<and> date_of (fst row) \<le> last_day week)
       (data self)"

definition plot_path :: "(date \<Rightarrow> string) \<Rightarrow> Week \<Rightarrow> string" where
  "plot_path strftime week =
     ''./figures/Week'' @ str_int (week_number week) @ ''-'' @ time_span strftime week @ ''.pgf''"

definition plot_week ::
  "(date \<Rightarrow> string) \<Rightarrow> (date \<Rightarrow> string) \<Rightarrow> 'n CGV \<Rightarrow> int + Week \<Rightarrow> world \<Rightarrow>
     error + string option \<times> world" where
  "plot_week strftime repr_date self week w =
     (case (case week of Inl n \<Rightarrow> lookup_week (weeks self) n | Inr wk \<Rightarrow> Inr wk) of
        Inl e \<Rightarrow> Inl e
      | Inr wk \<Rightarrow>
          if length (week_data self wk) = 0 then
            Inr (None, w\<lparr>stdout := stdout w @
                   [''In week '' @ repr_Week repr_date wk @ '' does no data exist'']\<rparr>)
          else
            (let path = plot_path strftime wk
             in Inr (Some path, w\<lparr>files := (files w)(path \<mapsto> Figure)\<rparr>)))"

text \<open>
  \<open>plot_week_range\<close>: the loop over \<open>range(first_week, last_week)\<close>, which leaves
  \<open>last_week\<close> out. An exception of \<open>plot_week\<close> ends the loop.
\<close>

fun plot_weeks_loop ::
  "(date \<Rightarrow> string) \<Rightarrow> (date \<Rightarrow> string) \<Rightarrow> 'n CGV \<Rightarrow> int list \<Rightarrow> string option list \<Rightarrow> world \<Rightarrow>
     error + string option list \<times> world" where
  "plot_weeks_loop strftime repr_date self [] paths w = Inr (paths, w)"
| "plot_weeks_loop strftime repr_date self (week # rest) paths w =
     (case plot_week strftime repr_date self (Inl week) w of
        Inl e \<Rightarrow> Inl e
      | Inr (p, w') \<Rightarrow> plot_weeks_loop strftime repr_date self rest (paths @ [p]) w')"

definition plot_week_range ::
  "(date \<Rightarrow> string) \<Rightarrow> (date \<Rightarrow> string) \<Rightarrow> 'n CGV \<Rightarrow> int \<Rightarrow> int \<Rightarrow> world \<Rightarrow>
     error + string option list \<times> world" where
  "plot_week_range strftime repr_date self first_week last_week w =
     plot_weeks_loop strftime repr_date self [first_week..last_week - 1] [] w"

text \<open>
  \<open>plot_all_weeks\<close> calls \<open>self.weeks.keys()\<close>. \<open>self.weeks\<close> is the list that
  \<open>segmenting_time_period\<close> returned, and a Python list has no attribute \<open>keys\<close>:
  the attribute lookup raises \<open>AttributeError\<close>. \<open>min\<close> and \<open>max\<close> of an empty
  sequence raise \<open>ValueError\<close>.
\<close>

definition list_keys :: "'a list \<Rightarrow> error + int list" where
  "list_keys xs = Inl AttributeError"

definition py_min :: "int list \<Rightarrow> error + int" where
  "py_min xs = (case xs of [] \<Rightarrow> Inl ValueError | y # ys \<Rightarrow> Inr (fold min ys y))"

definition py_max :: "int list \<Rightarrow> error + int" where
  "py_max xs = (case xs of [] \<Rightarrow> Inl ValueError | y # ys \<Rightarrow> Inr (fold max ys y))"

definition plot_all_weeks ::
  "(date \<Rightarrow> string) \<Rightarrow> (date \<Rightarrow> string) \<Rightarrow> 'n CGV \<Rightarrow> world \<Rightarrow> error + string option list \<times> world" where
  "plot_all_weeks strftime repr_date self w =
     (case list_keys (weeks self) of
        Inl e \<Rightarrow> Inl e
      | Inr ks \<Rightarrow>
        (case py_min ks of
           Inl e \<Rightarrow> Inl e
         | Inr first_week \<Rightarrow>
           (case list_keys (weeks self) of
              Inl e \<Rightarrow> Inl e
            | Inr ks' \<Rightarrow>
              (case py_max ks' of
                 Inl e \<Rightarrow> Inl e
               | Inr last_week \<Rightarrow>
                   plot_week_range strftime repr_date self first_week last_week w))))"

subsection \<open>The report assembler: PDF\<close>

text \<open>
  The constructor receives what the plotting functions returned: a path, or \<open>None\<close>
  for a week without data. \<open>Path(None)\<close> raises \<open>TypeError\<close>; the list comprehension
  evaluates \<open>Path(pgf).exists()\<close> for each entry in order. \<open>str(Path(p))\<close> is the
  parameter \<open>str_Path\<close>. The run of the typesetting program is external
  and leaves the model's state as it is.
\<close>

record PDF =
  pgf_paths :: "string list"
  name :: "string option"
  file_name :: string

definition path_exists :: "world \<Rightarrow> string \<Rightarrow> bool" where
  "path_exists w p = (files w p \<noteq> None)"

fun existing_paths :: "world \<Rightarrow> string option list \<Rightarrow> error + string list" where
  "existing_paths w [] = Inr []"
| "existing_paths w (pgf # rest) =
     (case pgf of
        None \<Rightarrow> Inl TypeError
      | Some p \<Rightarrow>
          (case existing_paths w rest of
             Inl e \<Rightarrow> Inl e
           | Inr ps \<Rightarrow> Inr (if path_exists w p then p # ps else ps)))"

definition backslash :: "string \<Rightarrow> string" where
  "backslash s = CHR 0x5C # s"

definition str_option :: "string option \<Rightarrow> string" where
  "str_option v = (case v of None \<Rightarrow> ''None'' | Some s \<Rightarrow> s)"

definition preamble :: "PDF \<Rightarrow> string list" where
  "preamble self =
     [backslash ''documentclass[DIV=15]{scrreprt}'',
      backslash ''usepackage[T1]{fontenc}'',
      backslash ''usepackage[utf8]{inputenc}'',
      backslash ''usepackage[ngerman]{babel}'',
      backslash ''usepackage{txfonts}%'',
      backslash ''usepackage{pgfplots}'',
      backslash ''usepackage{scrlayer-scrpage}'',
      backslash ''ihead{'' @ str_option (name self) @ ''}'',
      backslash ''ohead{Glukose-Werte}'']"

text \<open>The four lines that embed one artifact.\<close>

definition block :: "(string \<Rightarrow> string) \<Rightarrow> string \<Rightarrow> string list" where
  "block str_Path path =
     [backslash ''begin{center}'',
      CHR 0x09 # backslash ''input{'' @ str_Path path @ ''}'',
      backslash ''end{center}'',
      []]"

fun document_loop :: "(string \<Rightarrow> string) \<Rightarrow> string list \<Rightarrow> string list \<Rightarrow> string list" where
  "document_loop str_Path [] lines = lines"
| "document_loop str_Path (path # rest) lines =
     document_loop str_Path rest (lines @ block str_Path path)"

definition document :: "(string \<Rightarrow> string) \<Rightarrow> PDF \<Rightarrow> string list" where
  "document str_Path self =
     document_loop str_Path (pgf_paths self) [backslash ''begin{document}'', []] @
       [backslash ''end{document}'']"

text \<open>\<open>sep.join(lines)\<close>.\<close>

fun join :: "string \<Rightarrow> string list \<Rightarrow> string" where
  "join sep [] = []"
| "join sep [x] = x"
| "join sep (x # y # ys) = x @ sep @ join sep (y # ys)"

definition build_tex_file :: "(string \<Rightarrow> string) \<Rightarrow> PDF \<Rightarrow> world \<Rightarrow> world" where
  "build_tex_file str_Path self w =
     (let lines = preamble self @ document str_Path self
      in w\<lparr>files := (files w)(file_name self @ ''.tex'' \<mapsto> Text (join [CHR 0x0A] lines))\<rparr>)"

definition compile_latex :: "PDF \<Rightarrow> world \<Rightarrow> world" where
  "compile_latex self w = w"

definition PDF_init ::
  "(string \<Rightarrow> string) \<Rightarrow> string option list \<Rightarrow> string \<Rightarrow> string option \<Rightarrow> world \<Rightarrow>
     error + PDF \<times> world" where
  "PDF_init str_Path paths fname nm w =
     (case existing_paths w paths of
        Inl e \<Rightarrow> Inl e
      | Inr ps \<Rightarrow>
          (let self = \<lparr>pgf_paths = ps, name = nm, file_name = fname\<rparr>
           in Inr (self, compile_latex self (build_tex_file str_Path self w))))"

subsection \<open>Decimal numerals\<close>

text \<open>
  A comma-decimal numeral is a non-empty string of digits, a comma, and a non-empty
  string of digits; \<open>digits\<close> recognises the two parts. \<open>decimal_value\<close> reads a
  dot-decimal numeral as the rational number it denotes; it serves as an instance of
  the parameter \<open>to_numeric\<close>.
\<close>

definition is_digit :: "char \<Rightarrow> bool" where
  "is_digit c = (c \<in> set ''0123456789'')"

definition digits :: "string \<Rightarrow> bool" where
  "digits s = (s \<noteq> [] \<and> list_all is_digit s)"

fun digits_value :: "nat \<Rightarrow> string \<Rightarrow> nat option" where
  "digits_value acc [] = Some acc"
| "digits_value acc (c # cs) =
     (if is_digit c then digits_value (10 * acc + (of_char c - 48)) cs else None)"

definition decimal_value :: "string \<Rightarrow> error + rat" where
  "decimal_value s =
     (let whole = takeWhile (\<lambda>c. c \<noteq> CHR ''.'') s;
          rest = dropWhile (\<lambda>c. c \<noteq> CHR ''.'') s
      in if whole = [] then Inl ValueError
         else (case rest of
                 [] \<Rightarrow> (case digits_value 0 whole of
                          None \<Rightarrow> Inl ValueError
                        | Some n \<Rightarrow> Inr (of_nat n))
               | _ # fractional \<Rightarrow>
                   (if fractional = [] then Inl ValueError
                    else (case (digits_value 0 whole, digits_value 0 fractional) of
                            (Some n, Some m) \<Rightarrow> Inr (of_nat n + of_nat m / 10 ^ length fractional)
                          | _ \<Rightarrow> Inl ValueError))))"

subsection \<open>Closed form of the generation loop\<close>

text \<open>
  The weeks that \<open>n\<close> iterations append, starting with the boundary \<open>fwd\<close> and the
  counter \<open>week\<close>, and the number of iterations the loop makes for a positive segment
  length. Both are used to state what the loop computes.
\<close>

definition emitted :: "int \<Rightarrow> date \<Rightarrow> int \<Rightarrow> nat \<Rightarrow> Week list" where
  "emitted dps fwd week n =
     map (\<lambda>k. \<lparr>first_day = fwd + (int k + 1) * dps, week_number = week + int k + 1\<rparr>) [0..<n]"

definition iterations :: "int \<Rightarrow> date \<Rightarrow> date \<Rightarrow> nat" where
  "iterations dps m fwd = nat ((m - fwd + dps - 1) div dps)"

section \<open>Properties\<close>

subsection \<open>What the generation loop computes\<close>

lemma emitted_Suc:
  "emitted dps fwd week (Suc n) =
     \<lparr>first_day = fwd + dps, week_number = week + 1\<rparr> # emitted dps (fwd + dps) (week + 1) n"
proof -
  have "[0..<Suc n] = 0 # map Suc [0..<n]"
    by (simp add: upt_conv_Cons map_Suc_upt del: upt_Suc)
  then show ?thesis
    by (simp add: emitted_def comp_def algebra_simps del: upt_Suc)
qed

lemma length_emitted: "length (emitted dps fwd week n) = n"
  by (simp add: emitted_def)

lemma nth_emitted:
  "i < n \<Longrightarrow> emitted dps fwd week n ! i =
     \<lparr>first_day = fwd + (int i + 1) * dps, week_number = week + int i + 1\<rparr>"
  by (simp add: emitted_def)

lemma iterations_done: "0 < dps \<Longrightarrow> \<not> fwd < m \<Longrightarrow> iterations dps m fwd = 0"
proof -
  assume a: "0 < dps" "\<not> fwd < m"
  then have "\<not> dps \<le> m - fwd + dps - 1" by simp
  then have "\<not> 0 < (m - fwd + dps - 1) div dps"
    using a(1) pos_imp_zdiv_pos_iff by blast
  then show ?thesis by (simp add: iterations_def)
qed

lemma iterations_step:
  assumes "0 < dps" and "fwd < m"
  shows "iterations dps m fwd = Suc (iterations dps m (fwd + dps))"
proof -
  define A where "A = (m - (fwd + dps) + dps - 1) div dps"
  have "(m - (fwd + dps) + dps - 1 + dps) div dps = A + 1"
    unfolding A_def using assms(1) by (intro div_add_self2) simp
  moreover have "m - (fwd + dps) + dps - 1 + dps = m - fwd + dps - 1" by simp
  ultimately have eq: "(m - fwd + dps - 1) div dps = A + 1"
    by (simp only:)
  have nonneg: "0 \<le> A"
    unfolding A_def using assms by (simp add: pos_imp_zdiv_nonneg_iff)
  have "iterations dps m fwd = nat (A + 1)"
    unfolding iterations_def eq by (rule refl)
  also have "\<dots> = Suc (nat A)"
    using nonneg by (simp add: nat_add_distrib)
  also have "nat A = iterations dps m (fwd + dps)"
    unfolding iterations_def A_def by (rule refl)
  finally show ?thesis .
qed

text \<open>The loop stops exactly when the boundary has reached the maximum date.\<close>

lemma iterations_bounds:
  assumes "0 < dps"
  shows "m \<le> fwd + int (iterations dps m fwd) * dps"
    and "k < iterations dps m fwd \<Longrightarrow> fwd + int k * dps < m"
proof -
  define q where "q = (m - fwd + dps - 1) div dps"
  define r where "r = (m - fwd + dps - 1) mod dps"
  have x: "m - fwd + dps - 1 = q * dps + r" unfolding q_def r_def by simp
  have r: "0 \<le> r" "r < dps" using assms unfolding r_def by simp_all
  have it: "iterations dps m fwd = nat q" unfolding iterations_def q_def by (rule refl)
  show "m \<le> fwd + int (iterations dps m fwd) * dps"
  proof (cases "0 \<le> q")
    case True
    then have e: "int (iterations dps m fwd) = q" unfolding it by simp
    show ?thesis unfolding e using x r by linarith
  next
    case False
    then have "q \<le> -1" by simp
    then have "q * dps \<le> -1 * dps" by (rule mult_right_mono) (use assms in simp)
    then have "m - fwd < 0" using x r by linarith
    moreover have "int (iterations dps m fwd) = 0" using False unfolding it by simp
    ultimately show ?thesis by simp
  qed
  show "fwd + int k * dps < m" if "k < iterations dps m fwd"
  proof -
    from that have "int k + 1 \<le> q" unfolding it by simp
    then have "(int k + 1) * dps \<le> q * dps" by (rule mult_right_mono) (use assms in simp)
    then have "int k * dps + dps \<le> q * dps" by (simp only: distrib_right mult_1)
    with x r show ?thesis by linarith
  qed
qed

lemma segmenting_loop_closed:
  assumes "0 < dps"
  shows "segmenting_loop dps m fwd week acc =
           Some (acc @ emitted dps fwd week (iterations dps m fwd))"
proof (induction "nat (m - fwd)" arbitrary: fwd week acc rule: less_induct)
  case less
  show ?case
  proof (cases "fwd < m")
    case False
    with assms show ?thesis
      by (subst segmenting_loop.simps) (simp add: iterations_done emitted_def)
  next
    case True
    with assms have "nat (m - (fwd + dps)) < nat (m - fwd)" by simp
    from less[OF this] True assms show ?thesis
      by (subst segmenting_loop.simps) (simp add: iterations_step emitted_Suc)
  qed
qed

text \<open>
  Without the precondition the loop does not return: with a segment length that is
  not positive and a boundary before the maximum date it runs forever.
\<close>

lemma segmenting_loop_diverges:
  assumes "dps \<le> 0" and "fwd < m"
  shows "segmenting_loop dps m fwd week acc = None"
proof (rule ccontr)
  assume "segmenting_loop dps m fwd week acc \<noteq> None"
  then obtain y where y: "segmenting_loop dps m fwd week acc = Some y" by auto
  have "\<not> (dps \<le> 0 \<and> fwd < m)"
  proof (rule segmenting_loop.raw_induct
      [where P = "\<lambda>d hi lo w a r. \<not> (d \<le> 0 \<and> lo < hi)", OF _ y])
    fix f d hi lo w a r
    assume ih: "\<And>d hi lo w a r. f d hi lo w a = Some r \<Longrightarrow> \<not> (d \<le> 0 \<and> lo < hi)"
      and step: "(if lo < hi then f d hi (lo + d) (w + 1)
                    (a @ [\<lparr>first_day = lo + d, week_number = w + 1\<rparr>]) else Some a) = Some r"
    show "\<not> (d \<le> 0 \<and> lo < hi)"
    proof
      assume b: "d \<le> 0 \<and> lo < hi"
      with step have "f d hi (lo + d) (w + 1)
          (a @ [\<lparr>first_day = lo + d, week_number = w + 1\<rparr>]) = Some r" by simp
      from ih[OF this] b show False by simp
    qed
  qed
  with assms show False by simp
qed

lemma series_min_Cons: "series_min (t # ts) = Some (fold min ts t)"
  by (simp add: series_min_def)

lemma series_max_Cons: "series_max (t # ts) = Some (fold max ts t)"
  by (simp add: series_max_def)

lemma segmenting_time_period_closed:
  assumes "0 < dps"
  shows "segmenting_time_period (t # ts) dps =
           Some (emitted dps (align_first_day (date_of (fold min ts t))) 0
                   (iterations dps (date_of (fold max ts t))
                      (align_first_day (date_of (fold min ts t)))))"
  by (simp add: segmenting_time_period_def series_min_Cons series_max_Cons
        segmenting_loop_closed[OF assms])

text \<open>The alignment itself is right: it yields the Monday on or before the date.\<close>

lemma align_first_day_monday:
  "weekday (align_first_day d) = 0 \<and> align_first_day d \<le> d \<and> d - 6 \<le> align_first_day d"
  unfolding align_first_day_def weekday_def by presburger

subsection \<open>Termination of the generation loop\<close>

text \<open>
  Claim C5. With a positive segment length the loop of \<open>segmenting_time_period\<close>
  terminates, from any boundary, counter and list: it returns the list it was given
  followed by the weeks \<open>ws\<close> it appended. The week appended by iteration \<open>i + 1\<close>
  starts at the boundary after that iteration, which is the start boundary advanced
  \<open>i + 1\<close> times; the boundary before the iteration is strictly smaller and was still
  before the maximum date, and the boundary after the last iteration has reached or
  passed the maximum date.
\<close>

theorem segmenting_loop_terminates:
  "0 < days_per_segment \<Longrightarrow>
     \<exists>ws. segmenting_loop days_per_segment max_day first_week_day week acc = Some (acc @ ws) \<and>
       (\<forall>i < length ws.
          first_day (ws ! i) = first_week_day + (int i + 1) * days_per_segment \<and>
          first_day (ws ! i) - days_per_segment < first_day (ws ! i) \<and>
          first_day (ws ! i) - days_per_segment < max_day) \<and>
       max_day \<le> first_week_day + int (length ws) * days_per_segment"
proof -
  assume pos: "0 < days_per_segment"
  let ?n = "iterations days_per_segment max_day first_week_day"
  let ?ws = "emitted days_per_segment first_week_day week ?n"
  have "segmenting_loop days_per_segment max_day first_week_day week acc = Some (acc @ ?ws)"
    by (rule segmenting_loop_closed[OF pos])
  moreover have "\<forall>i < length ?ws.
          first_day (?ws ! i) = first_week_day + (int i + 1) * days_per_segment \<and>
          first_day (?ws ! i) - days_per_segment < first_day (?ws ! i) \<and>
          first_day (?ws ! i) - days_per_segment < max_day"
  proof (intro allI impI)
    fix i assume "i < length ?ws"
    then have i: "i < ?n" by (simp add: length_emitted)
    have "first_week_day + int i * days_per_segment < max_day"
      by (rule iterations_bounds(2)[OF pos i])
    moreover have "first_week_day + (int i + 1) * days_per_segment - days_per_segment
        = first_week_day + int i * days_per_segment"
      by (simp add: algebra_simps)
    ultimately show "first_day (?ws ! i) = first_week_day + (int i + 1) * days_per_segment \<and>
          first_day (?ws ! i) - days_per_segment < first_day (?ws ! i) \<and>
          first_day (?ws ! i) - days_per_segment < max_day"
      using pos by (simp add: nth_emitted[OF i])
  qed
  moreover have "max_day \<le> first_week_day + int (length ?ws) * days_per_segment"
    using iterations_bounds(1)[OF pos] by (simp add: length_emitted)
  ultimately show ?thesis by blast
qed

theorem segmenting_loop_terminates_witness:
  "(0::int) < 7 \<and>
     (\<exists>ws. segmenting_loop 7 738538 738522 0 [] = Some ([] @ ws) \<and>
       (\<forall>i < length ws.
          first_day (ws ! i) = 738522 + (int i + 1) * 7 \<and>
          first_day (ws ! i) - 7 < first_day (ws ! i) \<and>
          first_day (ws ! i) - 7 < 738538) \<and>
       738538 \<le> 738522 + int (length ws) * 7)"
  using segmenting_loop_terminates [of 7 738538 738522 0 "[]"] by simp

subsection \<open>The generated weeks\<close>

text \<open>
  Claim C3. For every series with a date range, which is every series that is not
  empty, \<open>segmenting_time_period\<close> with the segment length 7 of its only call returns a list of weeks that is contiguous, free
  of overlaps and ordered: the week numbers are 1, 2, 3 and so on; the day after the
  last day of a week is the first day of the next week; first days and week numbers
  increase strictly; and every week ends before any later week begins.
\<close>

theorem segments_contiguous_ordered:
  "dates \<noteq> [] \<Longrightarrow>
     \<exists>ws. segmenting_time_period dates 7 = Some ws \<and>
       (\<forall>i < length ws. week_number (ws ! i) = int i + 1) \<and>
       (\<forall>i. Suc i < length ws \<longrightarrow>
          last_day (ws ! i) + 1 = first_day (ws ! Suc i) \<and>
          first_day (ws ! i) < first_day (ws ! Suc i) \<and>
          week_number (ws ! i) < week_number (ws ! Suc i)) \<and>
       (\<forall>i j. i < j \<and> j < length ws \<longrightarrow> last_day (ws ! i) < first_day (ws ! j))"
proof -
  assume "dates \<noteq> []"
  then obtain t ts where dates: "dates = t # ts" by (cases dates) auto
  define a where "a = align_first_day (date_of (fold min ts t))"
  define n where "n = iterations 7 (date_of (fold max ts t)) a"
  let ?ws = "emitted 7 a 0 n"
  have run: "segmenting_time_period dates 7 = Some ?ws"
    unfolding dates a_def n_def by (rule segmenting_time_period_closed) simp
  have len: "length ?ws = n" by (rule length_emitted)
  have nth: "?ws ! i = \<lparr>first_day = a + (int i + 1) * 7, week_number = 0 + int i + 1\<rparr>"
    if "i < n" for i using that by (rule nth_emitted)
  have numbers: "\<forall>i < length ?ws. week_number (?ws ! i) = int i + 1"
    by (simp add: len nth)
  have adjacent: "\<forall>i. Suc i < length ?ws \<longrightarrow>
          last_day (?ws ! i) + 1 = first_day (?ws ! Suc i) \<and>
          first_day (?ws ! i) < first_day (?ws ! Suc i) \<and>
          week_number (?ws ! i) < week_number (?ws ! Suc i)"
    by (simp add: len nth last_day_def)
  have apart: "\<forall>i j. i < j \<and> j < length ?ws \<longrightarrow> last_day (?ws ! i) < first_day (?ws ! j)"
  proof (intro allI impI)
    fix i j assume ij: "i < j \<and> j < length ?ws"
    then have "i < n" "j < n" by (simp_all add: len)
    with ij show "last_day (?ws ! i) < first_day (?ws ! j)"
      by (simp add: nth last_day_def)
  qed
  from run numbers adjacent apart show ?thesis by blast
qed

theorem segments_contiguous_ordered_witness:
  "[(738524, 600), (738538, 3)] \<noteq> ([] :: timestamp list) \<and>
     (\<exists>ws. segmenting_time_period [(738524, 600), (738538, 3)] 7 = Some ws \<and>
       (\<forall>i < length ws. week_number (ws ! i) = int i + 1) \<and>
       (\<forall>i. Suc i < length ws \<longrightarrow>
          last_day (ws ! i) + 1 = first_day (ws ! Suc i) \<and>
          first_day (ws ! i) < first_day (ws ! Suc i) \<and>
          week_number (ws ! i) < week_number (ws ! Suc i)) \<and>
       (\<forall>i j. i < j \<and> j < length ws \<longrightarrow> last_day (ws ! i) < first_day (ws ! j)))"
  using segments_contiguous_ordered [of "[(738524, 600), (738538, 3)]"] by simp

text \<open>
  The first week that is appended starts one segment length after the aligned Monday,
  since the loop advances the boundary before it appends.
\<close>

lemma first_emitted_week:
  assumes "0 < dps" and "segmenting_time_period (t # ts) dps = Some (w # ws)"
  shows "first_day w = align_first_day (date_of (fold min ts t)) + dps \<and> week_number w = 1"
proof -
  define a where "a = align_first_day (date_of (fold min ts t))"
  define n where "n = iterations dps (date_of (fold max ts t)) a"
  from assms have e: "emitted dps a 0 n = w # ws"
    unfolding a_def n_def by (simp add: segmenting_time_period_closed)
  then have "0 < n" using length_emitted[of dps a 0 n] by simp
  from nth_emitted[OF this, of dps a 0] e show ?thesis
    unfolding a_def by simp
qed

text \<open>
  Claim C2 says that the first week starts on the Monday on or before the minimum date
  of the series. The code aligns the start to that Monday (\<open>align_first_day\<close>), but
  the first week it emits starts seven days later. For a series from Wednesday
  2023-01-04 (day 738524) to Wednesday 2023-01-18 (day 738538) the aligned Monday is
  2023-01-02 (day 738522), and the weeks returned start on 2023-01-09, 2023-01-16 and
  2023-01-23.
\<close>

theorem first_week_one_segment_late:
  "segmenting_time_period [(738524, 600), (738538, 3)] 7 =
     Some [\<lparr>first_day = 738529, week_number = 1\<rparr>,
           \<lparr>first_day = 738536, week_number = 2\<rparr>,
           \<lparr>first_day = 738543, week_number = 3\<rparr>] \<and>
   align_first_day 738524 = 738522 \<and> weekday 738522 = 0"
  by code_simp

text \<open>
  With the segment length 7, no week returned for a series of a single timestamp
  contains the date of that timestamp: every week starts after it.
\<close>

lemma single_day_never_covered:
  assumes "segmenting_time_period [t] 7 = Some ws" and "w \<in> set ws"
  shows "\<not> inside_week w (date_of t)"
proof -
  define a where "a = align_first_day (date_of t)"
  define n where "n = iterations 7 (date_of t) a"
  have "segmenting_time_period [t] 7 = Some (emitted 7 a 0 n)"
    using segmenting_time_period_closed[of 7 t "[]"] by (simp add: a_def n_def)
  with assms(1) have ws: "ws = emitted 7 a 0 n" by simp
  from assms(2) obtain i where i: "i < n" and w: "w = emitted 7 a 0 n ! i"
    unfolding ws by (auto simp: in_set_conv_nth length_emitted)
  have "first_day w = a + (int i + 1) * 7"
    unfolding w by (simp add: nth_emitted[OF i])
  moreover have "date_of t - 6 \<le> a"
    unfolding a_def using align_first_day_monday[of "date_of t"] by simp
  ultimately have "date_of t < first_day w" by simp
  then show ?thesis by (simp add: inside_week_def)
qed

text \<open>
  Claim C4 says that a series with a single date gets at least one week that contains
  the date. For the single date Wednesday 2023-01-04 (day 738524) the code returns one
  week, which starts on 2023-01-09 and does not contain the date; for the single date
  Monday 2023-01-02 (day 738522) it returns no week at all.
\<close>

theorem single_day_not_covered:
  "segmenting_time_period [(738524, 600)] 7 =
     Some [\<lparr>first_day = 738529, week_number = 1\<rparr>] \<and>
   \<not> inside_week \<lparr>first_day = 738529, week_number = 1\<rparr> 738524 \<and>
   segmenting_time_period [(738522, 600)] 7 = Some []"
  by code_simp

subsection \<open>Construction of the cleaner\<close>

text \<open>
  A run of the constructor on a small table: the rows are not in order, and one row
  has no glucose cell. The two dates are Wednesday 2023-01-04 and Wednesday 2023-01-18.
\<close>

lemma segmenting_example:
  "segmenting_time_period [(738524, 600), (738538, 600)] 7 =
     Some [\<lparr>first_day = 738529, week_number = 1\<rparr>,
           \<lparr>first_day = 738536, week_number = 2\<rparr>,
           \<lparr>first_day = 738543, week_number = 3\<rparr>]"
  by code_simp

lemma CGV_init_example:
  "CGV_init
     (\<lambda>s. if s = ''01-04-2023 10:00'' then Inr (738524, 600)
          else if s = ''01-18-2023 10:00'' then Inr (738538, 600)
          else Inl ValueError)
     decimal_value
     \<lparr>columns = [''Zeitstempel'', ''Glukosewert''],
      rows = [[''Zeitstempel'' \<mapsto> ''01-18-2023 10:00'', ''Glukosewert'' \<mapsto> ''12,0''],
              [''Zeitstempel'' \<mapsto> ''01-05-2023 10:00''],
              [''Zeitstempel'' \<mapsto> ''01-04-2023 10:00'', ''Glukosewert'' \<mapsto> ''7,4'']]\<rparr>
     ''Zeitstempel'' ''Glukosewert'' \<lparr>files = Map.empty, stdout = []\<rparr> =
   Some (Inr (\<lparr>data = [((738524, 600), 74 / 10), ((738538, 600), 12)],
               date_column = ''Zeitstempel'', glucose_column = ''Glukosewert'',
               weeks = [\<lparr>first_day = 738529, week_number = 1\<rparr>,
                        \<lparr>first_day = 738536, week_number = 2\<rparr>,
                        \<lparr>first_day = 738543, week_number = 3\<rparr>]\<rparr>,
              \<lparr>files = [''./figures/'' \<mapsto> Directory], stdout = []\<rparr>))"
  by (simp add: CGV_init_def set_column_attr_def get_attr_def
        segmenting_example convert_glucose_data_def str_replace_def decimal_value_def
        is_digit_def add_figure_folder_def)

text \<open>
  When a configured column is missing from the header, the constructor ends with
  \<open>AttributeError\<close>: the \<open>ValueError\<close> of the check is never raised, and the first
  read of the attribute that was not set fails.
\<close>

lemma missing_column_AttributeError:
  "date_col \<notin> set (columns tbl) \<or> glucose_col \<notin> set (columns tbl) \<Longrightarrow>
     CGV_init to_datetime to_numeric tbl date_col glucose_col w = Some (Inl AttributeError)"
  by (auto simp: CGV_init_def set_column_attr_def get_attr_def)

text \<open>
  Claim C1 says that a table without the configured date or glucose column makes the
  constructor fail with the schema error of its column check, before any segmentation.
  The code builds that error (a \<open>ValueError\<close> with the message that the column is not
  given) and drops it. For a table whose header lacks the glucose column the
  constructor does stop before the segmentation, but with the \<open>AttributeError\<close> of
  line 106, not with the error of the check.
\<close>

theorem missing_value_column_not_ValueError:
  "CGV_init to_datetime to_numeric
     \<lparr>columns = [''Zeitstempel'', ''Aufzeichnungstyp''],
      rows = [[''Zeitstempel'' \<mapsto> ''07-25-2023 10:15'', ''Aufzeichnungstyp'' \<mapsto> ''0'']]\<rparr>
     ''Zeitstempel'' ''Glukosewert-Verlauf mmol/L'' w = Some (Inl AttributeError) \<and>
   AttributeError \<noteq> ValueError"
  by (simp add: CGV_init_def set_column_attr_def get_attr_def)

subsection \<open>Conversion of the glucose values\<close>

lemma str_replace_append:
  "str_replace p r (a @ b) = str_replace p r a @ str_replace p r b"
  by (simp add: str_replace_def)

lemma str_replace_digits: "digits a \<Longrightarrow> str_replace CHR '','' CHR ''.'' a = a"
proof -
  assume a: "digits a"
  have "\<not> is_digit CHR '',''"
    by (simp add: is_digit_def)
  with a have "\<forall>c \<in> set a. c \<noteq> CHR '',''"
    unfolding digits_def list_all_iff by blast
  then show ?thesis
    unfolding str_replace_def by (intro map_idI) simp
qed

lemma str_replace_comma_decimal:
  assumes "digits a" and "digits b"
  shows "str_replace CHR '','' CHR ''.'' (a @ '','' @ b) = a @ ''.'' @ b"
proof -
  have "str_replace CHR '','' CHR ''.'' '','' = ''.''"
    by (simp add: str_replace_def)
  then show ?thesis
    by (simp only: str_replace_append str_replace_digits[OF assms(1)]
          str_replace_digits[OF assms(2)])
qed

text \<open>
  Claim C9. For a series of comma-decimal numerals (digits, a comma, digits)
  \<open>convert_glucose_data\<close> yields what the numeric parser yields for the corresponding
  dot-decimal numerals, whatever the parser is. With the exact value of a decimal
  numeral as the parser, \<open>7,4\<close> converts to 7.4 and \<open>12,0\<close> to 12.
\<close>

theorem convert_comma_decimal:
  "list_all (\<lambda>(a, b). digits a \<and> digits b) cells \<Longrightarrow>
     convert_glucose_data to_numeric (map (\<lambda>(a, b). a @ '','' @ b) cells) =
     map_result to_numeric (map (\<lambda>(a, b). a @ ''.'' @ b) cells)"
proof -
  assume "list_all (\<lambda>(a, b). digits a \<and> digits b) cells"
  then have "map (str_replace CHR '','' CHR ''.'') (map (\<lambda>(a, b). a @ '','' @ b) cells) =
             map (\<lambda>(a, b). a @ ''.'' @ b) cells"
  proof (induction cells)
    case Nil
    show ?case by simp
  next
    case (Cons c cells)
    obtain a b where c: "c = (a, b)" by (cases c)
    from Cons.prems have d: "digits a" "digits b"
      and rest: "list_all (\<lambda>(a, b). digits a \<and> digits b) cells"
      by (simp_all add: c)
    show ?case
      using Cons.IH[OF rest] str_replace_comma_decimal[OF d] by (simp add: c)
  qed
  then show ?thesis by (simp only: convert_glucose_data_def)
qed

theorem convert_comma_decimal_witness:
  "list_all (\<lambda>(a, b). digits a \<and> digits b) [(''7'', ''4''), (''12'', ''0'')] \<and>
   convert_glucose_data decimal_value [''7,4'', ''12,0''] = Inr [74 / 10, 12]"
proof -
  have h: "list_all (\<lambda>(a, b). digits a \<and> digits b) [(''7'', ''4''), (''12'', ''0'')]"
    by (simp add: digits_def is_digit_def)
  have "map_result decimal_value [''7.4'', ''12.0''] = Inr [74 / 10, 12]"
    by (simp add: decimal_value_def is_digit_def)
  with convert_comma_decimal [OF h, of decimal_value] h show ?thesis by simp
qed

subsection \<open>Rendering\<close>

text \<open>
  Claim C10. When no generated week has the number \<open>n\<close>, \<open>plot_week\<close> called with
  \<open>n\<close> raises \<open>IndexError\<close>: it takes element 0 of the empty list of matching weeks,
  and returns no absent artifact.
\<close>

theorem plot_week_unknown_number:
  "\<forall>x \<in> set (weeks self). week_number x \<noteq> n \<Longrightarrow>
     plot_week strftime repr_date self (Inl n) w = Inl IndexError"
proof -
  assume "\<forall>x \<in> set (weeks self). week_number x \<noteq> n"
  then have "filter (\<lambda>x. week_number x = n) (weeks self) = []"
    by (simp add: filter_empty_conv)
  then show ?thesis by (simp add: plot_week_def lookup_week_def)
qed

theorem plot_week_unknown_number_witness:
  "4 \<notin> set (map week_number (weeks \<lparr>data = [((738524, 600), 74 / 10 :: rat), ((738538, 600), 12)],
        date_column = ''Zeitstempel'', glucose_column = ''Glukosewert'',
        weeks = [\<lparr>first_day = 738529, week_number = 1\<rparr>,
                 \<lparr>first_day = 738536, week_number = 2\<rparr>,
                 \<lparr>first_day = 738543, week_number = 3\<rparr>]\<rparr>)) \<and>
   plot_week (\<lambda>d. ''date'') (\<lambda>d. ''date'')
     \<lparr>data = [((738524, 600), 74 / 10 :: rat), ((738538, 600), 12)],
        date_column = ''Zeitstempel'', glucose_column = ''Glukosewert'',
        weeks = [\<lparr>first_day = 738529, week_number = 1\<rparr>,
                 \<lparr>first_day = 738536, week_number = 2\<rparr>,
                 \<lparr>first_day = 738543, week_number = 3\<rparr>]\<rparr>
     (Inl 4) \<lparr>files = Map.empty, stdout = []\<rparr> = Inl IndexError"
  using plot_week_unknown_number [of
     "\<lparr>data = [((738524, 600), 74 / 10 :: rat), ((738538, 600), 12)],
        date_column = ''Zeitstempel'', glucose_column = ''Glukosewert'',
        weeks = [\<lparr>first_day = 738529, week_number = 1\<rparr>,
                 \<lparr>first_day = 738536, week_number = 2\<rparr>,
                 \<lparr>first_day = 738543, week_number = 3\<rparr>]\<rparr>"
     4 "\<lambda>d. ''date''" "\<lambda>d. ''date''" "\<lparr>files = Map.empty, stdout = []\<rparr>"]
  by simp

text \<open>
  Claim C6. For a week whose selection of the series is empty, \<open>plot_week\<close> returns
  normally with an absent path, stores no file, and prints one line. The loop of
  \<open>plot_week_range\<close> that reaches the number of such a week appends the absent path
  and goes on with the remaining numbers.
\<close>

theorem plot_week_empty_selection:
  "week_data self wk = [] \<Longrightarrow>
     \<exists>w'. plot_week strftime repr_date self (Inr wk) w = Inr (None, w') \<and>
       files w' = files w \<and>
       stdout w' = stdout w @ [''In week '' @ repr_Week repr_date wk @ '' does no data exist''] \<and>
       (\<forall>n rest paths. lookup_week (weeks self) n = Inr wk \<longrightarrow>
          plot_weeks_loop strftime repr_date self (n # rest) paths w =
          plot_weeks_loop strftime repr_date self rest (paths @ [None]) w')"
  by (simp add: plot_week_def)

theorem plot_week_empty_selection_witness:
  "week_data \<lparr>data = [((738524, 600), 74 / 10 :: rat), ((738538, 600), 12)],
        date_column = ''Zeitstempel'', glucose_column = ''Glukosewert'',
        weeks = [\<lparr>first_day = 738529, week_number = 1\<rparr>,
                 \<lparr>first_day = 738536, week_number = 2\<rparr>,
                 \<lparr>first_day = 738543, week_number = 3\<rparr>]\<rparr>
      \<lparr>first_day = 738543, week_number = 3\<rparr> = [] \<and>
   (\<exists>w'. plot_week (\<lambda>d. ''date'') (\<lambda>d. ''date'')
       \<lparr>data = [((738524, 600), 74 / 10 :: rat), ((738538, 600), 12)],
        date_column = ''Zeitstempel'', glucose_column = ''Glukosewert'',
        weeks = [\<lparr>first_day = 738529, week_number = 1\<rparr>,
                 \<lparr>first_day = 738536, week_number = 2\<rparr>,
                 \<lparr>first_day = 738543, week_number = 3\<rparr>]\<rparr>
       (Inr \<lparr>first_day = 738543, week_number = 3\<rparr>) \<lparr>files = Map.empty, stdout = []\<rparr> =
         Inr (None, w') \<and>
     files w' = Map.empty \<and> length (stdout w') = 1 \<and>
     plot_weeks_loop (\<lambda>d. ''date'') (\<lambda>d. ''date'')
       \<lparr>data = [((738524, 600), 74 / 10 :: rat), ((738538, 600), 12)],
        date_column = ''Zeitstempel'', glucose_column = ''Glukosewert'',
        weeks = [\<lparr>first_day = 738529, week_number = 1\<rparr>,
                 \<lparr>first_day = 738536, week_number = 2\<rparr>,
                 \<lparr>first_day = 738543, week_number = 3\<rparr>]\<rparr>
       [3] [Some ''p''] \<lparr>files = Map.empty, stdout = []\<rparr> = Inr ([Some ''p'', None], w'))"
proof -
  let ?self = "\<lparr>data = [((738524, 600), 74 / 10 :: rat), ((738538, 600), 12)],
        date_column = ''Zeitstempel'', glucose_column = ''Glukosewert'',
        weeks = [\<lparr>first_day = 738529, week_number = 1\<rparr>,
                 \<lparr>first_day = 738536, week_number = 2\<rparr>,
                 \<lparr>first_day = 738543, week_number = 3\<rparr>]\<rparr>"
  let ?wk = "\<lparr>first_day = 738543, week_number = 3\<rparr>"
  let ?w = "\<lparr>files = Map.empty, stdout = []\<rparr>"
  have h: "week_data ?self ?wk = []"
    by (simp add: week_data_def date_of_def last_day_def)
  have l: "lookup_week (weeks ?self) 3 = Inr ?wk"
    by (simp add: lookup_week_def)
  from plot_week_empty_selection [OF h, of "\<lambda>d. ''date''" "\<lambda>d. ''date''" ?w]
  obtain w' where r: "plot_week (\<lambda>d. ''date'') (\<lambda>d. ''date'') ?self (Inr ?wk) ?w = Inr (None, w')"
    and f: "files w' = Map.empty" and s: "length (stdout w') = 1"
    and c: "\<And>n rest paths. lookup_week (weeks ?self) n = Inr ?wk \<Longrightarrow>
          plot_weeks_loop (\<lambda>d. ''date'') (\<lambda>d. ''date'') ?self (n # rest) paths ?w =
          plot_weeks_loop (\<lambda>d. ''date'') (\<lambda>d. ''date'') ?self rest (paths @ [None]) w'"
    by auto
  from c[OF l, of "[]" "[Some ''p'']"]
  have "plot_weeks_loop (\<lambda>d. ''date'') (\<lambda>d. ''date'') ?self [3] [Some ''p''] ?w =
          Inr ([Some ''p'', None], w')"
    by simp
  with h r f s show ?thesis by blast
qed

text \<open>
  Claim C8 says that \<open>plot_all_weeks\<close> renders every week, in ascending order of the
  week number. The code raises \<open>AttributeError\<close> for every object: it asks the list
  of weeks for \<open>keys()\<close>. No week is rendered.
\<close>

theorem plot_all_weeks_raises:
  "plot_all_weeks strftime repr_date self w = Inl AttributeError"
  by (simp add: plot_all_weeks_def list_keys_def)

text \<open>
  \<open>plot_week_range\<close> iterates over \<open>range(first_week, last_week)\<close>: called with the
  first and the last week number it leaves the last week out, and with equal numbers
  it renders nothing.
\<close>

lemma plot_week_range_excludes_last:
  "plot_week_range strftime repr_date self n n w = Inr ([], w)"
  by (simp add: plot_week_range_def)

subsection \<open>Assembly of the report\<close>

lemma existing_paths_None:
  "None \<in> set paths \<Longrightarrow> existing_paths w paths = Inl TypeError"
proof (induction paths)
  case Nil
  then show ?case by simp
next
  case (Cons p paths)
  show ?case
  proof (cases p)
    case None
    then show ?thesis by simp
  next
    case (Some s)
    with Cons.prems have "None \<in> set paths" by simp
    with Cons.IH Some show ?thesis by simp
  qed
qed

lemma existing_paths_Some:
  "existing_paths w (map Some ps) = Inr (filter (path_exists w) ps)"
  by (induction ps) simp_all

lemma document_loop_blocks:
  "document_loop str_Path ps lines = lines @ concat (map (block str_Path) ps)"
  by (induction ps arbitrary: lines) simp_all

lemma document_blocks:
  "document str_Path self =
     [backslash ''begin{document}'', []] @ concat (map (block str_Path) (pgf_paths self)) @
     [backslash ''end{document}'']"
  by (simp add: document_def document_loop_blocks)

text \<open>
  When every entry of the list is a path, the document has one block for each path
  that exists, in the order of the list, and the others are skipped.
\<close>

lemma PDF_init_strings:
  "\<exists>self w'. PDF_init str_Path (map Some ps) fname nm w = Inr (self, w') \<and>
     pgf_paths self = filter (path_exists w) ps \<and>
     document str_Path self =
       [backslash ''begin{document}'', []] @
       concat (map (block str_Path) (filter (path_exists w) ps)) @
       [backslash ''end{document}'']"
  by (simp add: PDF_init_def existing_paths_Some document_blocks Let_def)

text \<open>An absent entry anywhere in the list makes the constructor raise.\<close>

lemma PDF_init_absent:
  "None \<in> set paths \<Longrightarrow> PDF_init str_Path paths fname nm w = Inl TypeError"
  by (simp add: PDF_init_def existing_paths_None)

text \<open>
  Claim C7 says that the assembler skips the absent artifacts of empty weeks, so that
  a run with one empty week embeds one block fewer than there are weeks. In the code
  the absent artifact of an empty week is \<open>None\<close>, and the constructor of \<open>PDF\<close>
  raises \<open>TypeError\<close> on it. For the object built from measurements on 2023-01-04 and
  2023-01-18, week 1 has no data and week 2 has: rendering the weeks 1 and 2 returns
  an absent entry and a path, and the assembly of that list raises.
\<close>

theorem empty_week_breaks_assembly:
  "\<exists>w1. plot_week_range strftime repr_date
       \<lparr>data = [((738524, 600), 74 / 10 :: rat), ((738538, 600), 12)],
        date_column = ''Zeitstempel'', glucose_column = ''Glukosewert'',
        weeks = [\<lparr>first_day = 738529, week_number = 1\<rparr>,
                 \<lparr>first_day = 738536, week_number = 2\<rparr>,
                 \<lparr>first_day = 738543, week_number = 3\<rparr>]\<rparr>
       1 3 \<lparr>files = [''./figures/'' \<mapsto> Directory], stdout = []\<rparr> =
       Inr ([None, Some (plot_path strftime \<lparr>first_day = 738536, week_number = 2\<rparr>)], w1) \<and>
     PDF_init str_Path [None, Some (plot_path strftime \<lparr>first_day = 738536, week_number = 2\<rparr>)]
       ''report'' nm w1 = Inl TypeError"
proof -
  have range: "[1..3 - 1] = [1, 2 :: int]"
    by code_simp
  show ?thesis
    unfolding plot_week_range_def range
    by (simp add: plot_week_def lookup_week_def week_data_def date_of_def last_day_def
          PDF_init_def Let_def)
qed

end
